theory Spec2Isabelle
  imports Main "HOL-Library.Sublist"
begin

section \<open>Annotated documents and the tokenizer\<close>

text \<open>
  An annotated document is what the spaCy pipeline hands to \<^verbatim>\<open>twitter_tokenizer\<close>: a
  sequence of tokens, each with its text, its lemma and the boolean attributes the
  tokenizer reads (\<^verbatim>\<open>t.text\<close>, \<^verbatim>\<open>t.lemma_\<close>, \<^verbatim>\<open>t.like_url\<close>, \<^verbatim>\<open>t._.is_piclink\<close>,
  \<^verbatim>\<open>t.is_stop\<close>, \<^verbatim>\<open>t.is_alpha\<close>, \<^verbatim>\<open>t._.is_hashtag\<close>).
\<close>

record token =
  tok_text :: string
  tok_lemma :: string
  like_url :: bool
  is_piclink :: bool
  is_stop :: bool
  is_alpha :: bool
  is_hashtag :: bool

type_synonym doc = "token list"

text \<open>The keyword arguments of \<^verbatim>\<open>twitter_tokenizer\<close>, and their default values.\<close>

record flags =
  urls :: bool
  stop_words :: bool
  lowercase :: bool
  alpha_only :: bool
  hashtags :: bool
  lemma_flag :: bool

definition default_flags :: flags where
  "default_flags =
     \<lparr>urls = True, stop_words = True, lowercase = True, alpha_only = True,
      hashtags = False, lemma_flag = False\<rparr>"

text \<open>
  \<^verbatim>\<open>str.lower\<close> on the characters of a \<^typ>\<open>string\<close>: the letters A to Z go to a to z,
  every other character stays. This is \<^verbatim>\<open>str.lower\<close> on ASCII text only: Python also
  lowers the letters beyond ASCII, which here are bytes left as they are.
\<close>

definition lower_char :: "char \<Rightarrow> char" where
  "lower_char c =
     (let n = (of_char c :: nat) in if 65 \<le> n \<and> n \<le> 90 then char_of (n + 32) else c)"

definition lower :: "string \<Rightarrow> string" where
  "lower s = map lower_char s"

text \<open>
  The string appended for a token that passes the filters: the lemma or the text,
  lowercased if \<^verbatim>\<open>lowercase\<close> is set (the last seven lines of the loop body).
\<close>

definition token_string :: "flags \<Rightarrow> token \<Rightarrow> string" where
  "token_string fl t =
     (let s = (if lemma_flag fl then tok_lemma t else tok_text t)
      in if lowercase fl then lower s else s)"

text \<open>
  One pass of the loop body: \<open>None\<close> is \<^verbatim>\<open>continue\<close>, \<open>Some s\<close> is
  \<^verbatim>\<open>tokens.append(s)\<close>. Python reads \<^verbatim>\<open>t.like_url or t._.is_piclink & urls\<close> as
  \<^verbatim>\<open>t.like_url or (t._.is_piclink & urls)\<close> and \<^verbatim>\<open>not t.is_alpha & alpha_only\<close> as
  \<^verbatim>\<open>not (t.is_alpha & alpha_only)\<close>, \<^verbatim>\<open>&\<close> binding tighter than \<^verbatim>\<open>not\<close> and \<^verbatim>\<open>or\<close>;
  on booleans \<^verbatim>\<open>&\<close> is conjunction.
\<close>

definition tokenizer_body :: "flags \<Rightarrow> token \<Rightarrow> string option" where
  "tokenizer_body fl t =
     (if like_url t \<or> (is_piclink t \<and> urls fl) then None
      else if is_stop t \<and> stop_words fl then None
      else if \<not> (is_alpha t \<and> alpha_only fl) then
        (if hashtags fl then None
         else if \<not> is_hashtag t then None
         else Some (token_string fl t))
      else Some (token_string fl t))"

text \<open>The loop \<^verbatim>\<open>for t in doc\<close> with its collector \<^verbatim>\<open>tokens\<close>.\<close>

fun tokenizer_loop :: "flags \<Rightarrow> doc \<Rightarrow> string list \<Rightarrow> string list" where
  "tokenizer_loop fl [] tokens = tokens"
| "tokenizer_loop fl (t # ts) tokens =
     (case tokenizer_body fl t of
        None \<Rightarrow> tokenizer_loop fl ts tokens
      | Some s \<Rightarrow> tokenizer_loop fl ts (tokens @ [s]))"

definition twitter_tokenizer :: "flags \<Rightarrow> doc \<Rightarrow> string list" where
  "twitter_tokenizer fl d = tokenizer_loop fl d []"

text \<open>\<^verbatim>\<open>TopicSeries.tokenizer\<close>, the pass-through given to the vectorizers.\<close>

definition tokenizer :: "string list \<Rightarrow> string list" where
  "tokenizer d = d"

text \<open>
  An output token read again as an annotation: its text, and no flag set.
\<close>

definition plain_annotation :: "string \<Rightarrow> token" where
  "plain_annotation s =
     \<lparr>tok_text = s, tok_lemma = s, like_url = False, is_piclink = False,
      is_stop = False, is_alpha = False, is_hashtag = False\<rparr>"

definition rerun_flags :: flags where
  "rerun_flags = default_flags\<lparr>alpha_only := False, stop_words := False, urls := False\<rparr>"

definition hello_doc :: doc where
  "hello_doc =
     [\<lparr>tok_text = ''Hello'', tok_lemma = ''hello'', like_url = False, is_piclink = False,
       is_stop = False, is_alpha = True, is_hashtag = False\<rparr>,
      \<lparr>tok_text = ''the'', tok_lemma = ''the'', like_url = False, is_piclink = False,
       is_stop = True, is_alpha = True, is_hashtag = False\<rparr>,
      \<lparr>tok_text = ''#AI'', tok_lemma = ''#ai'', like_url = False, is_piclink = False,
       is_stop = False, is_alpha = False, is_hashtag = True\<rparr>,
      \<lparr>tok_text = ''42'', tok_lemma = ''42'', like_url = False, is_piclink = False,
       is_stop = False, is_alpha = False, is_hashtag = False\<rparr>]"

section \<open>Time, corpus and period labels\<close>

text \<open>
  A timestamp counts whole seconds, the unit that \<^verbatim>\<open>dt.timedelta(seconds=1)\<close> subtracts;
  the corpus \<^verbatim>\<open>df\<close> is a frame of rows indexed by timestamp, of which the code reads the
  column \<^verbatim>\<open>tweet\<close>. A period label is \<^verbatim>\<open>str(ts.date())\<close>, the calendar day of a timestamp
  written \<^verbatim>\<open>yyyy-mm-dd\<close>; two timestamps get the same string exactly when they fall on the
  same day, so the model keeps the number of the day.
\<close>

type_synonym timestamp = int
type_synonym label = int
type_synonym corpus = "(timestamp \<times> string) list"

definition str_date :: "timestamp \<Rightarrow> label" where
  "str_date ts = ts div 86400"

text \<open>
  \<^verbatim>\<open>df[lo:hi].tweet\<close>: a label slice of a frame with a time index keeps the rows from
  \<open>lo\<close> to \<open>hi\<close>, both ends included, and none when \<open>hi\<close> is before \<open>lo\<close>. The
  frame is in time order, so these rows are the ones whose timestamp lies in the range.
\<close>

definition slice_tweets :: "corpus \<Rightarrow> timestamp \<Rightarrow> timestamp \<Rightarrow> string list" where
  "slice_tweets df lo hi = map snd (filter (\<lambda>row. lo \<le> fst row \<and> fst row \<le> hi) df)"

text \<open>The half-open slice \<open>[lo, hi)\<close> of the specification.\<close>

definition half_open_slice :: "corpus \<Rightarrow> timestamp \<Rightarrow> timestamp \<Rightarrow> string list" where
  "half_open_slice df lo hi = map snd (filter (\<lambda>row. lo \<le> fst row \<and> fst row < hi) df)"

section \<open>Errors and the libraries\<close>

text \<open>
  The code defines no exception of its own. A dictionary read of a missing label raises
  \<^verbatim>\<open>KeyError\<close>; everything else is raised by a library call and passes through.
\<close>

datatype error = KeyError label | ValueError string

definition bind :: "error + 'a \<Rightarrow> ('a \<Rightarrow> error + 'b) \<Rightarrow> error + 'b" where
  "bind m f = (case m of Inl e \<Rightarrow> Inl e | Inr v \<Rightarrow> f v)"

text \<open>\<^verbatim>\<open>d[key]\<close> on a dictionary.\<close>

definition lookup :: "(label \<rightharpoonup> 'v) \<Rightarrow> label \<Rightarrow> error + 'v" where
  "lookup d key = (case d key of None \<Rightarrow> Inl (KeyError key) | Some v \<Rightarrow> Inr v)"

text \<open>
  spaCy and scikit-learn are not part of the program; the model takes them as a parameter
  and fixes nothing about what they compute. The types \<open>'cv\<close>, \<open>'tfidf\<close>, \<open>'nmf\<close> and
  \<open>'lda\<close> are the fitted model objects, \<open>'x\<close> is a matrix and \<open>'r\<close> a float. Any call
  may raise. A vectorizer is built with the arguments \<^verbatim>\<open>tokenizer\<close> and \<^verbatim>\<open>lowercase\<close>, a
  decomposition with \<^verbatim>\<open>n_components\<close> and \<^verbatim>\<open>random_state\<close>; \<^verbatim>\<open>fit_transform\<close> returns the
  fitted object (with the matrix, for a vectorizer).
\<close>

record ('cv, 'tfidf, 'nmf, 'lda, 'x, 'r) library =
  nlp :: "string \<Rightarrow> doc"
  cv_fit_transform ::
    "(string list \<Rightarrow> string list) \<Rightarrow> bool \<Rightarrow> string list list \<Rightarrow> error + ('cv \<times> 'x)"
  tfidf_fit_transform ::
    "(string list \<Rightarrow> string list) \<Rightarrow> bool \<Rightarrow> string list list \<Rightarrow> error + ('tfidf \<times> 'x)"
  tfidf_transform :: "'tfidf \<Rightarrow> string list list \<Rightarrow> error + 'x"
  nmf_fit_transform :: "int \<Rightarrow> int \<Rightarrow> 'x \<Rightarrow> error + 'nmf"
  nmf_transform :: "'nmf \<Rightarrow> 'x \<Rightarrow> error + 'x"
  nmf_components :: "'nmf \<Rightarrow> 'x"
  nmf_reconstruction_err :: "'nmf \<Rightarrow> 'r"
  lda_fit_transform :: "int \<Rightarrow> int \<Rightarrow> 'x \<Rightarrow> error + 'lda"
  beta_divergence :: "'x \<Rightarrow> 'x \<Rightarrow> 'x \<Rightarrow> string \<Rightarrow> bool \<Rightarrow> error + 'r"

section \<open>The series of topic models\<close>

record ('cv, 'tfidf, 'nmf, 'lda) TopicSeries =
  n_components :: int
  random_state :: int
  cv_dict :: "label \<rightharpoonup> 'cv"
  tfidf_dict :: "label \<rightharpoonup> 'tfidf"
  nmf_dict :: "label \<rightharpoonup> 'nmf"
  lda_dict :: "label \<rightharpoonup> 'lda"

text \<open>
  What a method can change: the instance \<^verbatim>\<open>self\<close> and the console, to which \<^verbatim>\<open>print\<close>
  appends.
\<close>

datatype msg = Working_on label | Finished

record ('cv, 'tfidf, 'nmf, 'lda) world =
  self :: "('cv, 'tfidf, 'nmf, 'lda) TopicSeries"
  stdout :: "msg list"

definition print :: "msg \<Rightarrow> ('cv, 'tfidf, 'nmf, 'lda) world \<Rightarrow> ('cv, 'tfidf, 'nmf, 'lda) world" where
  "print m W = W\<lparr>stdout := stdout W @ [m]\<rparr>"

text \<open>\<^verbatim>\<open>__init__\<close>; the defaults are 5 topics and seed 42.\<close>

definition init :: "int \<Rightarrow> int \<Rightarrow> ('cv, 'tfidf, 'nmf, 'lda) TopicSeries" where
  "init n rs =
     \<lparr>n_components = n, random_state = rs, cv_dict = Map.empty, tfidf_dict = Map.empty,
      nmf_dict = Map.empty, lda_dict = Map.empty\<rparr>"

definition new_world :: "int \<Rightarrow> int \<Rightarrow> ('cv, 'tfidf, 'nmf, 'lda) world" where
  "new_world n rs = \<lparr>self = init n rs, stdout = []\<rparr>"

text \<open>
  \<^verbatim>\<open>calculate_nmf\<close> and \<^verbatim>\<open>calculate_lda\<close>: fit the vectorizer, fit the decomposition on
  its matrix, then store both under the label. An exception of either fit leaves the
  method before the two assignments.
\<close>

definition calculate_nmf ::
  "('cv, 'tfidf, 'nmf, 'lda, 'x, 'r) library \<Rightarrow> label \<Rightarrow> string list list \<Rightarrow>
   ('cv, 'tfidf, 'nmf, 'lda) TopicSeries \<Rightarrow> (error + unit) \<times> ('cv, 'tfidf, 'nmf, 'lda) TopicSeries"
where
  "calculate_nmf L date data S =
     (case tfidf_fit_transform L tokenizer False data of
        Inl e \<Rightarrow> (Inl e, S)
      | Inr (tfidf, tfidf_vecs) \<Rightarrow>
          (case nmf_fit_transform L (n_components S) (random_state S) tfidf_vecs of
             Inl e \<Rightarrow> (Inl e, S)
           | Inr nmf \<Rightarrow>
               (Inr (), S\<lparr>tfidf_dict := (tfidf_dict S)(date \<mapsto> tfidf),
                           nmf_dict := (nmf_dict S)(date \<mapsto> nmf)\<rparr>)))"

definition calculate_lda ::
  "('cv, 'tfidf, 'nmf, 'lda, 'x, 'r) library \<Rightarrow> label \<Rightarrow> string list list \<Rightarrow>
   ('cv, 'tfidf, 'nmf, 'lda) TopicSeries \<Rightarrow> (error + unit) \<times> ('cv, 'tfidf, 'nmf, 'lda) TopicSeries"
where
  "calculate_lda L date data S =
     (case cv_fit_transform L tokenizer False data of
        Inl e \<Rightarrow> (Inl e, S)
      | Inr (cv, count_vecs) \<Rightarrow>
          (case lda_fit_transform L (n_components S) (random_state S) count_vecs of
             Inl e \<Rightarrow> (Inl e, S)
           | Inr lda \<Rightarrow>
               (Inr (), S\<lparr>cv_dict := (cv_dict S)(date \<mapsto> cv),
                           lda_dict := (lda_dict S)(date \<mapsto> lda)\<rparr>)))"

text \<open>
  The two lines that \<^verbatim>\<open>fit\<close> and \<^verbatim>\<open>calc_rec_error\<close> share: the tweets of the frame from
  \<^verbatim>\<open>date_range[i]\<close> to one second before \<^verbatim>\<open>date_range[i + 1]\<close>, each run through the spaCy
  pipeline and the tokenizer with its default flags.
\<close>

definition period_docs ::
  "('cv, 'tfidf, 'nmf, 'lda, 'x, 'r) library \<Rightarrow> corpus \<Rightarrow> timestamp list \<Rightarrow> nat \<Rightarrow>
   string list list"
where
  "period_docs L df date_range i =
     map (\<lambda>text. twitter_tokenizer default_flags (nlp L text))
       (slice_tweets df (date_range ! i) (date_range ! (i + 1) - 1))"

text \<open>The body of the loop of \<^verbatim>\<open>fit\<close> for one index \<open>i\<close>.\<close>

definition fit_body ::
  "('cv, 'tfidf, 'nmf, 'lda, 'x, 'r) library \<Rightarrow> corpus \<Rightarrow> timestamp list \<Rightarrow> nat \<Rightarrow>
   ('cv, 'tfidf, 'nmf, 'lda) world \<Rightarrow> (error + unit) \<times> ('cv, 'tfidf, 'nmf, 'lda) world"
where
  "fit_body L df date_range i W =
     (let date = str_date (date_range ! (i + 1));
          W1 = print (Working_on date) W;
          sub_df = period_docs L df date_range i
      in case calculate_nmf L date sub_df (self W1) of
           (Inl e, S1) \<Rightarrow> (Inl e, W1\<lparr>self := S1\<rparr>)
         | (Inr u, S1) \<Rightarrow>
             (case calculate_lda L date sub_df S1 of
                (res, S2) \<Rightarrow> (res, W1\<lparr>self := S2\<rparr>)))"

text \<open>
  \<^verbatim>\<open>for i in range(len(date_range) - 1)\<close>: the indices in order, leaving at the first
  exception. \<^verbatim>\<open>range\<close> of zero or of a negative number is empty.
\<close>

fun fit_loop ::
  "('cv, 'tfidf, 'nmf, 'lda, 'x, 'r) library \<Rightarrow> corpus \<Rightarrow> timestamp list \<Rightarrow> nat list \<Rightarrow>
   ('cv, 'tfidf, 'nmf, 'lda) world \<Rightarrow> (error + unit) \<times> ('cv, 'tfidf, 'nmf, 'lda) world"
where
  "fit_loop L df date_range [] W = (Inr (), W)"
| "fit_loop L df date_range (i # is) W =
     (case fit_body L df date_range i W of
        (Inl e, W') \<Rightarrow> (Inl e, W')
      | (Inr u, W') \<Rightarrow> fit_loop L df date_range is W')"

definition fit ::
  "('cv, 'tfidf, 'nmf, 'lda, 'x, 'r) library \<Rightarrow> corpus \<Rightarrow> timestamp list \<Rightarrow>
   ('cv, 'tfidf, 'nmf, 'lda) world \<Rightarrow> (error + unit) \<times> ('cv, 'tfidf, 'nmf, 'lda) world"
where
  "fit L df date_range W =
     (case fit_loop L df date_range [0 ..< length date_range - 1] W of
        (Inl e, W') \<Rightarrow> (Inl e, W')
      | (Inr u, W') \<Rightarrow> (Inr (), print Finished W'))"

text \<open>
  The reads and library calls of one pass of the loop of \<^verbatim>\<open>calc_rec_error\<close>, in the order
  Python evaluates them: the arguments of \<^verbatim>\<open>_beta_divergence\<close> from left to right, then
  the stored error of the label's own model. The result is the pair
  \<^verbatim>\<open>(rec_err, new_rec_err)\<close>.
\<close>

definition rec_error_pair ::
  "('cv, 'tfidf, 'nmf, 'lda, 'x, 'r) library \<Rightarrow> ('cv, 'tfidf, 'nmf, 'lda) TopicSeries \<Rightarrow>
   label \<Rightarrow> label \<Rightarrow> string list list \<Rightarrow> error + ('r \<times> 'r)"
where
  "rec_error_pair L S prev_date date sub_df =
     bind (lookup (tfidf_dict S) prev_date) (\<lambda>tfidf.
     bind (tfidf_transform L tfidf sub_df) (\<lambda>tfidf_vecs.
     bind (lookup (nmf_dict S) prev_date) (\<lambda>nmf.
     bind (nmf_transform L nmf tfidf_vecs) (\<lambda>w.
     bind (lookup (nmf_dict S) prev_date) (\<lambda>nmf'.
     bind (beta_divergence L tfidf_vecs w (nmf_components L nmf') ''frobenius'' True)
       (\<lambda>new_rec_err.
     bind (lookup (nmf_dict S) date) (\<lambda>own.
     Inr (nmf_reconstruction_err L own, new_rec_err))))))))"

definition rec_error_body ::
  "('cv, 'tfidf, 'nmf, 'lda, 'x, 'r) library \<Rightarrow> corpus \<Rightarrow> timestamp list \<Rightarrow> nat \<Rightarrow>
   'r list \<times> 'r list \<Rightarrow> ('cv, 'tfidf, 'nmf, 'lda) world \<Rightarrow>
   (error + 'r list \<times> 'r list) \<times> ('cv, 'tfidf, 'nmf, 'lda) world"
where
  "rec_error_body L df date_range i errs W =
     (let date = str_date (date_range ! (i + 1));
          prev_date = str_date (date_range ! i);
          W1 = print (Working_on date) W;
          sub_df = period_docs L df date_range i
      in case rec_error_pair L (self W1) prev_date date sub_df of
           Inl e \<Rightarrow> (Inl e, W1)
         | Inr (rec_err, new_rec_err) \<Rightarrow>
             (Inr (fst errs @ [rec_err], snd errs @ [new_rec_err]), W1))"

fun rec_error_loop ::
  "('cv, 'tfidf, 'nmf, 'lda, 'x, 'r) library \<Rightarrow> corpus \<Rightarrow> timestamp list \<Rightarrow> nat list \<Rightarrow>
   'r list \<times> 'r list \<Rightarrow> ('cv, 'tfidf, 'nmf, 'lda) world \<Rightarrow>
   (error + 'r list \<times> 'r list) \<times> ('cv, 'tfidf, 'nmf, 'lda) world"
where
  "rec_error_loop L df date_range [] errs W = (Inr errs, W)"
| "rec_error_loop L df date_range (i # is) errs W =
     (case rec_error_body L df date_range i errs W of
        (Inl e, W') \<Rightarrow> (Inl e, W')
      | (Inr errs', W') \<Rightarrow> rec_error_loop L df date_range is errs' W')"

text \<open>\<^verbatim>\<open>calc_rec_error\<close> returns the pair \<^verbatim>\<open>(model_err, new_err)\<close>.\<close>

definition calc_rec_error ::
  "('cv, 'tfidf, 'nmf, 'lda, 'x, 'r) library \<Rightarrow> corpus \<Rightarrow> timestamp list \<Rightarrow>
   ('cv, 'tfidf, 'nmf, 'lda) world \<Rightarrow>
   (error + 'r list \<times> 'r list) \<times> ('cv, 'tfidf, 'nmf, 'lda) world"
where
  "calc_rec_error L df date_range W =
     (case rec_error_loop L df date_range [0 ..< length date_range - 1] ([], []) W of
        (Inl e, W') \<Rightarrow> (Inl e, W')
      | (Inr errs, W') \<Rightarrow> (Inr errs, print Finished W'))"

text \<open>
  The period documents as the specification describes them, from the half-open slice.
\<close>

definition spec_period_docs ::
  "('cv, 'tfidf, 'nmf, 'lda, 'x, 'r) library \<Rightarrow> corpus \<Rightarrow> timestamp \<Rightarrow> timestamp \<Rightarrow>
   string list list"
where
  "spec_period_docs L df lo hi =
     map (\<lambda>text. twitter_tokenizer default_flags (nlp L text)) (half_open_slice df lo hi)"

text \<open>
  The instances a caller can hold: a new one, and whatever the methods leave behind,
  whether they return or raise.
\<close>

inductive reachable ::
  "('cv, 'tfidf, 'nmf, 'lda, 'x, 'r) library \<Rightarrow> ('cv, 'tfidf, 'nmf, 'lda) world \<Rightarrow> bool"
  for L :: "('cv, 'tfidf, 'nmf, 'lda, 'x, 'r) library"
where
  reach_new: "reachable L (new_world n rs)"
| reach_nmf: "reachable L W \<Longrightarrow>
    reachable L (W\<lparr>self := snd (calculate_nmf L date data (self W))\<rparr>)"
| reach_lda: "reachable L W \<Longrightarrow>
    reachable L (W\<lparr>self := snd (calculate_lda L date data (self W))\<rparr>)"
| reach_fit: "reachable L W \<Longrightarrow> reachable L (snd (fit L df date_range W))"
| reach_rec: "reachable L W \<Longrightarrow> reachable L (snd (calc_rec_error L df date_range W))"

section \<open>A stand-in library and sample inputs\<close>

text \<open>
  To run the model on concrete inputs the libraries need values. In this stand-in a
  tweet is one alphabetic word, a fitted model is the data it was fitted on, a matrix is
  its rows of tokens, a vectorizer refuses an empty vocabulary, and the error figures are
  counts of rows.
\<close>

definition word :: "string \<Rightarrow> token" where
  "word s =
     \<lparr>tok_text = s, tok_lemma = s, like_url = False, is_piclink = False,
      is_stop = False, is_alpha = True, is_hashtag = False\<rparr>"

type_synonym rows = "string list list"

definition stub_fit :: "(string list \<Rightarrow> string list) \<Rightarrow> bool \<Rightarrow> rows \<Rightarrow> error + (rows \<times> rows)" where
  "stub_fit tok lc docs =
     (if concat (map tok docs) = [] then Inl (ValueError ''empty vocabulary'')
      else Inr (docs, docs))"

definition stub :: "(rows, rows, rows, rows, rows, nat) library" where
  "stub =
     \<lparr>nlp = (\<lambda>s. [word s]),
      cv_fit_transform = stub_fit,
      tfidf_fit_transform = stub_fit,
      tfidf_transform = (\<lambda>m docs. Inr docs),
      nmf_fit_transform = (\<lambda>n rs x. Inr x),
      nmf_transform = (\<lambda>m x. Inr x),
      nmf_components = (\<lambda>m. m),
      nmf_reconstruction_err = (\<lambda>m. length m),
      lda_fit_transform = (\<lambda>n rs x. Inr x),
      beta_divergence = (\<lambda>x w h loss root. Inr (length x + length h))\<rparr>"

definition hashtag_token :: token where
  "hashtag_token =
     \<lparr>tok_text = ''#AI'', tok_lemma = ''#ai'', like_url = False, is_piclink = False,
      is_stop = False, is_alpha = False, is_hashtag = True\<rparr>"

text \<open>Four tweets on three consecutive days, and a world with nothing fitted.\<close>

definition tweets :: corpus where
  "tweets = [(0, ''a''), (86400, ''b''), (90000, ''c''), (172800, ''d'')]"

definition fresh :: "(rows, rows, rows, rows) world" where
  "fresh = new_world 5 42"

text \<open>
  The invariant of the store: a label with a decomposition has the vectorizer it was
  fitted on.
\<close>

definition paired :: "('cv, 'tfidf, 'nmf, 'lda) TopicSeries \<Rightarrow> bool" where
  "paired S \<longleftrightarrow> dom (nmf_dict S) \<subseteq> dom (tfidf_dict S) \<and> dom (lda_dict S) \<subseteq> dom (cv_dict S)"

text \<open>A run of \<^verbatim>\<open>fit\<close> whose last period has no tweet.\<close>

definition aborted_range :: "timestamp list" where
  "aborted_range = [0, 86400, 172800, 259200, 345600]"

text \<open>
  What scikit-learn documents for a vectorizer: fitting it on documents that hold no
  token at all raises (\<^verbatim>\<open>ValueError: empty vocabulary\<close>). The program relies on it and
  has no check of its own.
\<close>

definition refuses_empty_vocabulary :: "('cv, 'tfidf, 'nmf, 'lda, 'x, 'r) library \<Rightarrow> bool" where
  "refuses_empty_vocabulary L \<longleftrightarrow>
     (\<forall>docs. concat docs = [] \<longrightarrow> (\<exists>e. tfidf_fit_transform L tokenizer False docs = Inl e))"

text \<open>Worlds in which one day, and two days, have been fitted.\<close>

definition fitted_day1 :: "(rows, rows, rows, rows) world" where
  "fitted_day1 = snd (fit stub tweets [0, 86400] fresh)"

definition fitted_day2 :: "(rows, rows, rows, rows) world" where
  "fitted_day2 = snd (fit stub tweets [0, 86400, 172800] fresh)"

text \<open>
  The four models stored under a label, and the statement that they are the ones the
  libraries fit on given documents with \<open>k\<close> topics and seed \<open>rs\<close>.
\<close>

definition models_at ::
  "('cv, 'tfidf, 'nmf, 'lda) TopicSeries \<Rightarrow> label \<Rightarrow>
   'cv option \<times> 'tfidf option \<times> 'nmf option \<times> 'lda option" where
  "models_at S d = (cv_dict S d, tfidf_dict S d, nmf_dict S d, lda_dict S d)"

definition fitted_on ::
  "('cv, 'tfidf, 'nmf, 'lda, 'x, 'r) library \<Rightarrow> int \<Rightarrow> int \<Rightarrow> string list list \<Rightarrow>
   ('cv, 'tfidf, 'nmf, 'lda) TopicSeries \<Rightarrow> label \<Rightarrow> bool" where
  "fitted_on L k rs docs S d \<longleftrightarrow>
     (\<exists>cv c lda tfidf x nmf.
        cv_fit_transform L tokenizer False docs = Inr (cv, c) \<and>
        lda_fit_transform L k rs c = Inr lda \<and>
        tfidf_fit_transform L tokenizer False docs = Inr (tfidf, x) \<and>
        nmf_fit_transform L k rs x = Inr nmf \<and>
        models_at S d = (Some cv, Some tfidf, Some nmf, Some lda))"

text \<open>The labels of the four stores.\<close>

definition labels_of ::
  "('cv, 'tfidf, 'nmf, 'lda) TopicSeries \<Rightarrow> label set \<times> label set \<times> label set \<times> label set" where
  "labels_of S = (dom (cv_dict S), dom (tfidf_dict S), dom (nmf_dict S), dom (lda_dict S))"

text \<open>Two boundaries on the same day, and boundaries on three consecutive days.\<close>

definition same_day_tweets :: corpus where
  "same_day_tweets = [(0, ''a''), (10, ''b'')]"

definition same_day_range :: "timestamp list" where
  "same_day_range = [0, 10, 20]"

definition three_days :: "timestamp list" where
  "three_days = [0, 86400, 172800, 259200]"

text \<open>
  The library calls of one pass of \<^verbatim>\<open>calc_rec_error\<close> return a value: the TF-IDF
  transform of the period's documents by the model stored under the previous label and,
  if the NMF model is stored too, its transform and the divergence.
\<close>

definition transforms_return ::
  "('cv, 'tfidf, 'nmf, 'lda, 'x, 'r) library \<Rightarrow> ('cv, 'tfidf, 'nmf, 'lda) TopicSeries \<Rightarrow>
   label \<Rightarrow> string list list \<Rightarrow> bool" where
  "transforms_return L S prev_date sub_df \<longleftrightarrow>
     (\<forall>tf. tfidf_dict S prev_date = Some tf \<longrightarrow>
        (\<exists>x. tfidf_transform L tf sub_df = Inr x \<and>
           (\<forall>nm. nmf_dict S prev_date = Some nm \<longrightarrow>
              (\<exists>w r. nmf_transform L nm x = Inr w \<and>
                 beta_divergence L x w (nmf_components L nm) ''frobenius'' True = Inr r))))"

text \<open>
  The stand-in library with a TF-IDF transform that refuses an empty list of documents,
  as scikit-learn refuses a matrix without rows; a corpus with no tweet on its second
  day; the world after fitting its first day; and the boundaries of the two days after.
\<close>

definition strict :: "(rows, rows, rows, rows, rows, nat) library" where
  "strict = stub\<lparr>tfidf_transform :=
     (\<lambda>m docs. if docs = [] then Inl (ValueError ''0 samples'') else Inr docs)\<rparr>"

definition gap_tweets :: corpus where
  "gap_tweets = [(0, ''a''), (172800, ''d'')]"

definition gap_day1 :: "(rows, rows, rows, rows) world" where
  "gap_day1 = snd (fit strict gap_tweets [0, 86400] fresh)"

definition later_days :: "timestamp list" where
  "later_days = [86400, 172800, 259200]"

section \<open>Properties of the tokenizer\<close>

lemma tokenizer_loop_map_filter:
  "tokenizer_loop fl d tokens = tokens @ List.map_filter (tokenizer_body fl) d"
  by (induction d arbitrary: tokens) (simp_all add: List.map_filter_simps split: option.split)

lemma twitter_tokenizer_map_filter:
  "twitter_tokenizer fl d = List.map_filter (tokenizer_body fl) d"
  by (simp add: twitter_tokenizer_def tokenizer_loop_map_filter)

lemma twitter_tokenizer_append:
  "twitter_tokenizer fl (d @ e) = twitter_tokenizer fl d @ twitter_tokenizer fl e"
  by (simp add: twitter_tokenizer_map_filter List.map_filter_def)

lemma twitter_tokenizer_kept:
  "twitter_tokenizer fl d =
     map (token_string fl) (filter (\<lambda>t. tokenizer_body fl t \<noteq> None) d)"
proof -
  have "tokenizer_body fl t \<noteq> None \<Longrightarrow> the (tokenizer_body fl t) = token_string fl t" for t
    by (auto simp: tokenizer_body_def split: if_splits)
  then show ?thesis
    by (simp add: twitter_tokenizer_map_filter List.map_filter_def)
qed

lemma tokenizer_body_default_not_stop:
  "tokenizer_body default_flags t \<noteq> None \<Longrightarrow> \<not> is_stop t"
  by (auto simp: tokenizer_body_def default_flags_def split: if_splits)

lemma hello_doc_default:
  "twitter_tokenizer default_flags hello_doc = [''hello'', ''#ai'']"
  by code_simp

lemma subseq_filter_self: "subseq (filter P xs) xs"
  by (induction xs) auto

lemma lower_hashtag_ai: "lower ''#AI'' = ''#ai''"
  by code_simp

text \<open>
  C4. With the default flags, the tokenizer returns at most as many strings as the
  document has annotations, and they are the lowercased texts of a subsequence of the
  annotations (so in the order of the document), none of which is a stop word.
\<close>

theorem tokenizer_default_bounded_ordered:
  "length (twitter_tokenizer default_flags D) \<le> length D \<and>
   (\<exists>kept. subseq kept D \<and> (\<forall>t \<in> set kept. \<not> is_stop t) \<and>
      twitter_tokenizer default_flags D = map (\<lambda>t. lower (tok_text t)) kept)"
proof -
  let ?kept = "filter (\<lambda>t. tokenizer_body default_flags t \<noteq> None) D"
  have eq: "twitter_tokenizer default_flags D = map (token_string default_flags) ?kept"
    by (rule twitter_tokenizer_kept)
  have str: "token_string default_flags = (\<lambda>t. lower (tok_text t))"
    by (rule ext) (simp add: token_string_def default_flags_def)
  have len: "length (twitter_tokenizer default_flags D) \<le> length D"
    by (simp add: eq)
  have sub: "subseq ?kept D"
    by (rule subseq_filter_self)
  have nostop: "\<forall>t \<in> set ?kept. \<not> is_stop t"
    using tokenizer_body_default_not_stop by auto
  from eq str have "twitter_tokenizer default_flags D = map (\<lambda>t. lower (tok_text t)) ?kept"
    by simp
  with len sub nostop show ?thesis by blast
qed

theorem tokenizer_default_bounded_ordered_witness:
  "length (twitter_tokenizer default_flags hello_doc) \<le> length hello_doc \<and>
   (\<exists>kept. subseq kept hello_doc \<and> (\<forall>t \<in> set kept. \<not> is_stop t) \<and>
      [''hello'', ''#ai''] = map (\<lambda>t. lower (tok_text t)) kept)"
  using tokenizer_default_bounded_ordered [of hello_doc] by (simp only: hello_doc_default)

text \<open>
  C5. A token that is not alphabetic but is a hashtag, and is neither url-like, a
  picture link nor a stop word, is kept when \<^verbatim>\<open>alpha_only\<close> is set and \<^verbatim>\<open>hashtags\<close> is
  not, whatever the other flags and wherever it stands in the document: the test on
  \<^verbatim>\<open>alpha_only\<close> sends it into the inner branch, and the hashtag test there lets it pass.
\<close>

theorem hashtag_exception_retained:
  assumes "\<not> is_alpha t" and "is_hashtag t" and "\<not> like_url t" and "\<not> is_piclink t"
    and "\<not> is_stop t" and "alpha_only fl" and "\<not> hashtags fl"
  shows "tokenizer_body fl t = Some (token_string fl t) \<and>
         twitter_tokenizer fl (before @ t # after) =
           twitter_tokenizer fl before @ token_string fl t # twitter_tokenizer fl after"
proof -
  have body: "tokenizer_body fl t = Some (token_string fl t)"
    using assms by (simp add: tokenizer_body_def)
  then have "twitter_tokenizer fl [t] = [token_string fl t]"
    by (simp add: twitter_tokenizer_def)
  then have "twitter_tokenizer fl (before @ t # after) =
      twitter_tokenizer fl before @ token_string fl t # twitter_tokenizer fl after"
    using twitter_tokenizer_append [of fl before "[t] @ after"]
      twitter_tokenizer_append [of fl "[t]" after] by simp
  with body show ?thesis by simp
qed

theorem hashtag_exception_retained_witness:
  "\<not> is_alpha hashtag_token \<and> is_hashtag hashtag_token \<and> \<not> like_url hashtag_token \<and>
   \<not> is_piclink hashtag_token \<and> \<not> is_stop hashtag_token \<and>
   alpha_only default_flags \<and> \<not> hashtags default_flags \<and>
   twitter_tokenizer default_flags ([word ''x''] @ hashtag_token # [word ''y'']) =
     twitter_tokenizer default_flags [word ''x''] @ ''#ai'' #
     twitter_tokenizer default_flags [word ''y'']"
proof -
  have h: "\<not> is_alpha hashtag_token" "is_hashtag hashtag_token" "\<not> like_url hashtag_token"
    "\<not> is_piclink hashtag_token" "\<not> is_stop hashtag_token"
    "alpha_only default_flags" "\<not> hashtags default_flags"
    by (simp_all add: hashtag_token_def default_flags_def)
  have s: "token_string default_flags hashtag_token = ''#ai''"
    by (simp add: token_string_def default_flags_def hashtag_token_def lower_hashtag_ai)
  show ?thesis
    using h hashtag_exception_retained [OF h, of "[word ''x'']" "[word ''y'']"]
    by (simp only: s) simp
qed

text \<open>
  C6. The tokens of \<open>hello_doc\<close> under the default flags are \<open>hello\<close> and \<open>#ai\<close>.
  Read again as annotations with no flag set and tokenized with \<^verbatim>\<open>alpha_only\<close>,
  \<^verbatim>\<open>stop_words\<close> and \<^verbatim>\<open>urls\<close> off, they are all dropped: with \<^verbatim>\<open>alpha_only\<close> off the
  test \<^verbatim>\<open>not t.is_alpha & alpha_only\<close> holds for every token, and only hashtags pass.
\<close>

theorem rerun_drops_every_token:
  "twitter_tokenizer default_flags hello_doc = [''hello'', ''#ai''] \<and>
   twitter_tokenizer rerun_flags
     (map plain_annotation (twitter_tokenizer default_flags hello_doc)) = []"
  by code_simp


section \<open>The drift evaluation leaves the instance alone\<close>

lemma self_print [simp]: "self (print m W) = self W"
  by (simp add: print_def)

lemma stdout_print [simp]: "stdout (print m W) = stdout W @ [m]"
  by (simp add: print_def)

lemma rec_error_body_self:
  "self (snd (rec_error_body L df dr i errs W)) = self W"
  by (simp add: rec_error_body_def Let_def split: sum.split prod.split)

lemma rec_error_loop_self:
  "self (snd (rec_error_loop L df dr is errs W)) = self W"
proof (induction "is" arbitrary: errs W)
  case Nil
  show ?case by simp
next
  case (Cons i "is")
  obtain res W' where b: "rec_error_body L df dr i errs W = (res, W')"
    by (cases "rec_error_body L df dr i errs W")
  then have "self W' = self W"
    using rec_error_body_self [of L df dr i errs W] by simp
  with b Cons.IH show ?case
    by (cases res) simp_all
qed

lemma calc_rec_error_self:
  "self (snd (calc_rec_error L df date_range W)) = self W"
proof -
  obtain res W' where l:
    "rec_error_loop L df date_range [0 ..< length date_range - 1] ([], []) W = (res, W')"
    by (cases "rec_error_loop L df date_range [0 ..< length date_range - 1] ([], []) W")
  then have "self W' = self W"
    using rec_error_loop_self [of L df date_range "[0 ..< length date_range - 1]" "([], [])" W]
    by simp
  with l show ?thesis
    by (cases res) (simp_all add: calc_rec_error_def)
qed

section \<open>The invariant of the store\<close>

lemma paired_calculate_nmf: "paired S \<Longrightarrow> paired (snd (calculate_nmf L date data S))"
  by (auto simp: paired_def calculate_nmf_def split: sum.split prod.split)

lemma paired_calculate_lda: "paired S \<Longrightarrow> paired (snd (calculate_lda L date data S))"
  by (auto simp: paired_def calculate_lda_def split: sum.split prod.split)

lemma paired_fit_body: "paired (self W) \<Longrightarrow> paired (self (snd (fit_body L df dr i W)))"
proof -
  assume p: "paired (self W)"
  let ?d = "str_date (dr ! (i + 1))"
  let ?docs = "period_docs L df dr i"
  obtain r1 S1 where n: "calculate_nmf L ?d ?docs (self W) = (r1, S1)"
    by (cases "calculate_nmf L ?d ?docs (self W)")
  obtain r2 S2 where l: "calculate_lda L ?d ?docs S1 = (r2, S2)"
    by (cases "calculate_lda L ?d ?docs S1")
  have p1: "paired S1" using paired_calculate_nmf [OF p, of L ?d ?docs] n by simp
  have p2: "paired S2" using paired_calculate_lda [OF p1, of L ?d ?docs] l by simp
  show ?thesis
    using n l p1 p2 by (cases r1) (simp_all add: fit_body_def Let_def)
qed

lemma paired_fit_loop:
  "paired (self W) \<Longrightarrow> paired (self (snd (fit_loop L df dr is W)))"
proof (induction "is" arbitrary: W)
  case Nil
  then show ?case by simp
next
  case (Cons i "is")
  obtain res W' where b: "fit_body L df dr i W = (res, W')"
    by (cases "fit_body L df dr i W")
  then have "paired (self W')"
    using paired_fit_body [OF Cons.prems, of L df dr i] by simp
  with b Cons.IH show ?case
    by (cases res) simp_all
qed

lemma paired_fit: "paired (self W) \<Longrightarrow> paired (self (snd (fit L df dr W)))"
proof -
  assume p: "paired (self W)"
  obtain res W' where l: "fit_loop L df dr [0 ..< length dr - 1] W = (res, W')"
    by (cases "fit_loop L df dr [0 ..< length dr - 1] W")
  then have "paired (self W')"
    using paired_fit_loop [OF p, of L df dr "[0 ..< length dr - 1]"] by simp
  with l show ?thesis
    by (cases res) (simp_all add: fit_def)
qed

lemma aborted_run_raises:
  "fst (fit stub tweets aborted_range fresh) = Inl (ValueError ''empty vocabulary'')"
  by code_simp

text \<open>
  C9. In every instance that can be reached from a new one by the methods, also by calls
  that raised, each label of the NMF store is a label of the TF-IDF store and each label
  of the LDA store is a label of the count store.
\<close>

theorem store_pairs_always_complete:
  assumes "reachable L W"
  shows "dom (nmf_dict (self W)) \<subseteq> dom (tfidf_dict (self W)) \<and>
         dom (lda_dict (self W)) \<subseteq> dom (cv_dict (self W))"
proof -
  from assms have "paired (self W)"
  proof (induction rule: reachable.induct)
    case (reach_new n rs)
    show ?case by (simp add: paired_def new_world_def init_def)
  next
    case (reach_nmf W date data)
    then show ?case by (simp add: paired_calculate_nmf)
  next
    case (reach_lda W date data)
    then show ?case by (simp add: paired_calculate_lda)
  next
    case (reach_fit W df date_range)
    then show ?case by (simp add: paired_fit)
  next
    case (reach_rec W df date_range)
    then show ?case by (simp add: calc_rec_error_self)
  qed
  then show ?thesis by (simp add: paired_def)
qed


theorem store_pairs_always_complete_witness:
  "reachable stub (snd (fit stub tweets aborted_range fresh)) \<and>
   fst (fit stub tweets aborted_range fresh) = Inl (ValueError ''empty vocabulary'') \<and>
   dom (nmf_dict (self (snd (fit stub tweets aborted_range fresh)))) \<subseteq>
     dom (tfidf_dict (self (snd (fit stub tweets aborted_range fresh)))) \<and>
   dom (lda_dict (self (snd (fit stub tweets aborted_range fresh)))) \<subseteq>
     dom (cv_dict (self (snd (fit stub tweets aborted_range fresh))))"
proof -
  have r: "reachable stub (snd (fit stub tweets aborted_range fresh))"
    unfolding fresh_def by (rule reach_fit [OF reach_new])
  show ?thesis
    using r store_pairs_always_complete [OF r] aborted_run_raises by simp
qed

text \<open>
  C10. \<^verbatim>\<open>calc_rec_error\<close> prints, reads the stores and calls the libraries; whether it
  returns or raises, the instance afterwards is the instance before: the four stores and
  the two configuration fields are the same.
\<close>

theorem calc_rec_error_keeps_instance:
  "self (snd (calc_rec_error L df date_range W)) = self W \<and>
   cv_dict (self (snd (calc_rec_error L df date_range W))) = cv_dict (self W) \<and>
   tfidf_dict (self (snd (calc_rec_error L df date_range W))) = tfidf_dict (self W) \<and>
   nmf_dict (self (snd (calc_rec_error L df date_range W))) = nmf_dict (self W) \<and>
   lda_dict (self (snd (calc_rec_error L df date_range W))) = lda_dict (self W) \<and>
   n_components (self (snd (calc_rec_error L df date_range W))) = n_components (self W) \<and>
   random_state (self (snd (calc_rec_error L df date_range W))) = random_state (self W)"
  by (simp add: calc_rec_error_self)

section \<open>Boundary sequences are not validated\<close>

lemma short_range: "length dr < 2 \<Longrightarrow> [0 ..< length dr - 1] = []"
  by simp

lemma slice_tweets_empty: "hi \<le> lo \<Longrightarrow> slice_tweets df lo (hi - 1) = []"
  by (auto simp: slice_tweets_def filter_empty_conv)

text \<open>
  C7, as the code has it. Neither method checks the boundaries. With fewer than two of
  them the loop has no pass: \<^verbatim>\<open>fit\<close> stores nothing and prints that it has finished,
  \<^verbatim>\<open>calc_rec_error\<close> returns two empty lists. A pair of boundaries that does not increase
  selects no tweet, and its empty list of documents goes to the libraries as any other.
\<close>

theorem boundaries_not_validated:
  "(length date_range < 2 \<longrightarrow>
      fit L df date_range W = (Inr (), print Finished W) \<and>
      calc_rec_error L df date_range W = (Inr ([], []), print Finished W)) \<and>
   (date_range ! (i + 1) \<le> date_range ! i \<longrightarrow> period_docs L df date_range i = [])"
  by (simp add: fit_def calc_rec_error_def period_docs_def slice_tweets_empty)

text \<open>
  C7 as stated fails: with one timestamp as boundaries, both methods return normally.
\<close>

theorem single_boundary_no_error:
  "fst (fit stub tweets [0] fresh) = Inr () \<and>
   fst (calc_rec_error stub tweets [0] fresh) = Inr ([], [])"
  by (simp add: fit_def calc_rec_error_def)

theorem boundaries_not_validated_witness:
  "length [0::int] < 2 \<and>
   fit stub tweets [0] fresh = (Inr (), print Finished fresh) \<and>
   calc_rec_error stub tweets [0] fresh = (Inr ([], []), print Finished fresh) \<and>
   [86400, 0::int] ! (0 + 1) \<le> [86400, 0] ! 0 \<and> period_docs stub tweets [86400, 0] 0 = []"
  using boundaries_not_validated [where date_range = "[0]" and L = stub and df = tweets
      and W = fresh and i = 0]
    boundaries_not_validated [where date_range = "[86400, 0]" and L = stub and df = tweets
      and W = fresh and i = 0]
  by simp

section \<open>Loops, split at an index and cut at a prefix\<close>


lemma rec_error_loop_append:
  "rec_error_loop L df dr (is @ js) errs W =
     (case rec_error_loop L df dr is errs W of
        (Inl e, W') \<Rightarrow> (Inl e, W')
      | (Inr errs', W') \<Rightarrow> rec_error_loop L df dr js errs' W')"
proof (induction "is" arbitrary: errs W)
  case Nil
  show ?case by simp
next
  case (Cons i "is")
  obtain res W' where b: "rec_error_body L df dr i errs W = (res, W')"
    by (cases "rec_error_body L df dr i errs W")
  show ?case
    using b Cons.IH by (cases res) simp_all
qed

lemma fit_loop_append:
  "fit_loop L df dr (is @ js) W =
     (case fit_loop L df dr is W of
        (Inl e, W') \<Rightarrow> (Inl e, W')
      | (Inr u, W') \<Rightarrow> fit_loop L df dr js W')"
proof (induction "is" arbitrary: W)
  case Nil
  show ?case by simp
next
  case (Cons i "is")
  obtain res W' where b: "fit_body L df dr i W = (res, W')"
    by (cases "fit_body L df dr i W")
  show ?case
    using b Cons.IH by (cases res) simp_all
qed

lemma upt_split_at: "i < n \<Longrightarrow> [0 ..< n] = [0 ..< i] @ i # [Suc i ..< n]"
  using upt_add_eq_append [of 0 i "n - i"] upt_conv_Cons [of i n] by simp


lemma period_docs_cong:
  "dr ! i = dr' ! i \<Longrightarrow> dr ! (i + 1) = dr' ! (i + 1) \<Longrightarrow>
   period_docs L df dr i = period_docs L df dr' i"
  by (simp add: period_docs_def)

lemma rec_error_body_cong:
  "dr ! i = dr' ! i \<Longrightarrow> dr ! (i + 1) = dr' ! (i + 1) \<Longrightarrow>
   rec_error_body L df dr i errs W = rec_error_body L df dr' i errs W"
  by (simp add: rec_error_body_def period_docs_def)

lemma rec_error_loop_cong:
  "\<forall>i \<in> set is. dr ! i = dr' ! i \<and> dr ! (i + 1) = dr' ! (i + 1) \<Longrightarrow>
   rec_error_loop L df dr is errs W = rec_error_loop L df dr' is errs W"
proof (induction "is" arbitrary: errs W)
  case Nil
  show ?case by simp
next
  case (Cons i "is")
  from Cons.prems have eq: "rec_error_body L df dr i errs W = rec_error_body L df dr' i errs W"
    by (intro rec_error_body_cong) simp_all
  obtain res W' where b: "rec_error_body L df dr' i errs W = (res, W')"
    by (cases "rec_error_body L df dr' i errs W")
  from Cons.prems have rest: "\<forall>i \<in> set is. dr ! i = dr' ! i \<and> dr ! (i + 1) = dr' ! (i + 1)"
    by simp
  show ?case
    using eq b Cons.IH [OF rest] by (cases res) simp_all
qed

lemma fit_body_cong:
  "dr ! i = dr' ! i \<Longrightarrow> dr ! (i + 1) = dr' ! (i + 1) \<Longrightarrow>
   fit_body L df dr i W = fit_body L df dr' i W"
  by (simp add: fit_body_def period_docs_def)

lemma fit_loop_cong:
  "\<forall>i \<in> set is. dr ! i = dr' ! i \<and> dr ! (i + 1) = dr' ! (i + 1) \<Longrightarrow>
   fit_loop L df dr is W = fit_loop L df dr' is W"
proof (induction "is" arbitrary: W)
  case Nil
  show ?case by simp
next
  case (Cons i "is")
  from Cons.prems have eq: "fit_body L df dr i W = fit_body L df dr' i W"
    by (intro fit_body_cong) simp_all
  obtain res W' where b: "fit_body L df dr' i W = (res, W')"
    by (cases "fit_body L df dr' i W")
  from Cons.prems have rest: "\<forall>i \<in> set is. dr ! i = dr' ! i \<and> dr ! (i + 1) = dr' ! (i + 1)"
    by simp
  show ?case
    using eq b Cons.IH [OF rest] by (cases res) simp_all
qed

lemma rec_error_loop_prefix:
  assumes "i < length dr - 1"
  shows "rec_error_loop L df (take (Suc i) dr) [0 ..< length (take (Suc i) dr) - 1] errs W =
         rec_error_loop L df dr [0 ..< i] errs W"
proof -
  from assms have len: "length (take (Suc i) dr) - 1 = i" by simp
  have "rec_error_loop L df (take (Suc i) dr) [0 ..< i] errs W =
        rec_error_loop L df dr [0 ..< i] errs W"
    by (rule rec_error_loop_cong) simp
  with len show ?thesis by simp
qed

lemma fit_loop_prefix:
  assumes "i < length dr - 1"
  shows "fit_loop L df (take (Suc i) dr) [0 ..< length (take (Suc i) dr) - 1] W =
         fit_loop L df dr [0 ..< i] W"
proof -
  from assms have len: "length (take (Suc i) dr) - 1 = i" by simp
  have "fit_loop L df (take (Suc i) dr) [0 ..< i] W = fit_loop L df dr [0 ..< i] W"
    by (rule fit_loop_cong) simp
  with len show ?thesis by simp
qed


section \<open>A missing model of the previous period\<close>

lemma rec_error_pair_missing:
  "tfidf_dict S prev_date = None \<Longrightarrow>
   rec_error_pair L S prev_date date sub_df = Inl (KeyError prev_date)"
  by (simp add: rec_error_pair_def bind_def lookup_def)

lemma rec_error_body_missing:
  "tfidf_dict (self W) (str_date (dr ! i)) = None \<Longrightarrow>
   fst (rec_error_body L df dr i errs W) = Inl (KeyError (str_date (dr ! i)))"
  by (simp add: rec_error_body_def Let_def rec_error_pair_missing)

lemma rec_error_loop_missing_head:
  assumes "tfidf_dict (self W) (str_date (dr ! i)) = None"
  shows "fst (rec_error_loop L df dr (i # is) errs W) = Inl (KeyError (str_date (dr ! i)))"
proof -
  obtain res W' where b: "rec_error_body L df dr i errs W = (res, W')"
    by (cases "rec_error_body L df dr i errs W")
  with rec_error_body_missing [OF assms, of L df errs]
  have "res = Inl (KeyError (str_date (dr ! i)))" by simp
  with b show ?thesis by simp
qed

lemma calc_rec_error_fst:
  "fst (calc_rec_error L df dr W) =
   fst (rec_error_loop L df dr [0 ..< length dr - 1] ([], []) W)"
  by (simp add: calc_rec_error_def split: prod.split sum.split)

lemma fit_fst:
  "fst (fit L df dr W) = fst (fit_loop L df dr [0 ..< length dr - 1] W)"
  by (simp add: fit_def split: prod.split sum.split)

lemma calc_rec_error_missing:
  assumes i: "i < length dr - 1"
    and none: "tfidf_dict (self W) (str_date (dr ! i)) = None"
  shows "(\<exists>e. fst (calc_rec_error L df dr W) = Inl e) \<and>
         ((\<exists>errs. fst (calc_rec_error L df (take (Suc i) dr) W) = Inr errs) \<longrightarrow>
          fst (calc_rec_error L df dr W) = Inl (KeyError (str_date (dr ! i))))"
proof -
  let ?n = "length dr - 1"
  obtain res W' where pre: "rec_error_loop L df dr [0 ..< i] ([], []) W = (res, W')"
    by (cases "rec_error_loop L df dr [0 ..< i] ([], []) W")
  have self': "self W' = self W"
    using rec_error_loop_self [of L df dr "[0 ..< i]" "([], [])" W] pre by simp
  have split: "[0 ..< ?n] = [0 ..< i] @ i # [Suc i ..< ?n]"
    using i by (rule upt_split_at)
  have whole: "fst (calc_rec_error L df dr W) =
      (case res of Inl e \<Rightarrow> Inl e
       | Inr errs' \<Rightarrow> fst (rec_error_loop L df dr (i # [Suc i ..< ?n]) errs' W'))"
    by (simp only: calc_rec_error_fst split rec_error_loop_append pre)
       (simp split: sum.split)
  have short: "fst (calc_rec_error L df (take (Suc i) dr) W) = res"
    by (simp only: calc_rec_error_fst rec_error_loop_prefix [OF i] pre) simp
  show ?thesis
  proof (cases res)
    case (Inl e)
    with whole short show ?thesis by simp
  next
    case (Inr errs')
    from none self' have "tfidf_dict (self W') (str_date (dr ! i)) = None" by simp
    from rec_error_loop_missing_head [OF this, of L df "[Suc i ..< ?n]" errs'] whole Inr
    show ?thesis by simp
  qed
qed

section \<open>The slice of a period\<close>

lemma slice_tweets_half_open: "slice_tweets df lo (hi - 1) = half_open_slice df lo hi"
proof -
  have "(\<lambda>row :: timestamp \<times> string. lo \<le> fst row \<and> fst row \<le> hi - 1) =
        (\<lambda>row. lo \<le> fst row \<and> fst row < hi)"
    by (rule ext) auto
  then show ?thesis by (simp add: slice_tweets_def half_open_slice_def)
qed

lemma period_docs_spec:
  "period_docs L df dr i = spec_period_docs L df (dr ! i) (dr ! (i + 1))"
  by (simp add: period_docs_def spec_period_docs_def slice_tweets_half_open)

section \<open>Which exception a missing model raises\<close>

lemma rec_error_pair_cases:
  assumes "transforms_return L S prev_date sub_df"
  shows "(\<exists>p. rec_error_pair L S prev_date date sub_df = Inr p) \<or>
         (\<exists>l. rec_error_pair L S prev_date date sub_df = Inl (KeyError l) \<and>
              (l = prev_date \<or> l = date) \<and> (tfidf_dict S l = None \<or> nmf_dict S l = None))"
proof (cases "tfidf_dict S prev_date")
  case None
  then show ?thesis by (simp add: rec_error_pair_missing)
next
  case (Some tf)
  with assms obtain x where x: "tfidf_transform L tf sub_df = Inr x"
    and rest: "\<forall>nm. nmf_dict S prev_date = Some nm \<longrightarrow>
      (\<exists>w r. nmf_transform L nm x = Inr w \<and>
         beta_divergence L x w (nmf_components L nm) ''frobenius'' True = Inr r)"
    unfolding transforms_return_def by blast
  show ?thesis
  proof (cases "nmf_dict S prev_date")
    case None
    with Some x show ?thesis
      by (simp add: rec_error_pair_def bind_def lookup_def)
  next
    case nm: (Some nm)
    with rest obtain w r where w: "nmf_transform L nm x = Inr w"
      and r: "beta_divergence L x w (nmf_components L nm) ''frobenius'' True = Inr r"
      by blast
    show ?thesis
      using Some x nm w r
      by (cases "nmf_dict S date") (simp_all add: rec_error_pair_def bind_def lookup_def)
  qed
qed


lemma rec_error_body_cases:
  assumes "transforms_return L (self W) (str_date (dr ! i)) (period_docs L df dr i)"
  shows "(\<exists>p. fst (rec_error_body L df dr i errs W) = Inr p) \<or>
         (\<exists>l. fst (rec_error_body L df dr i errs W) = Inl (KeyError l) \<and>
              (l = str_date (dr ! i) \<or> l = str_date (dr ! (i + 1))) \<and>
              (tfidf_dict (self W) l = None \<or> nmf_dict (self W) l = None))"
proof -
  let ?r = "rec_error_pair L (self W) (str_date (dr ! i)) (str_date (dr ! (i + 1)))
      (period_docs L df dr i)"
  have body: "fst (rec_error_body L df dr i errs W) =
      (case ?r of Inl e \<Rightarrow> Inl e
       | Inr p \<Rightarrow> Inr (fst errs @ [fst p], snd errs @ [snd p]))"
    by (simp add: rec_error_body_def Let_def split: sum.split prod.split)
  from rec_error_pair_cases [OF assms, of "str_date (dr ! (i + 1))"]
  consider p where "?r = Inr p"
    | l where "?r = Inl (KeyError l)" "l = str_date (dr ! i) \<or> l = str_date (dr ! (i + 1))"
        "tfidf_dict (self W) l = None \<or> nmf_dict (self W) l = None"
    by blast
  then show ?thesis
  proof cases
    case 1
    with body show ?thesis by simp
  next
    case 2
    with body show ?thesis by simp
  qed
qed

lemma rec_error_loop_cases:
  assumes "\<forall>j \<in> set is. transforms_return L (self W) (str_date (dr ! j)) (period_docs L df dr j)"
  shows "(\<exists>p. fst (rec_error_loop L df dr is errs W) = Inr p) \<or>
         (\<exists>l j. fst (rec_error_loop L df dr is errs W) = Inl (KeyError l) \<and> j \<in> set is \<and>
              (l = str_date (dr ! j) \<or> l = str_date (dr ! (j + 1))) \<and>
              (tfidf_dict (self W) l = None \<or> nmf_dict (self W) l = None))"
  using assms
proof (induction "is" arbitrary: errs W)
  case Nil
  show ?case by simp
next
  case (Cons i "is")
  obtain res W' where b: "rec_error_body L df dr i errs W = (res, W')"
    by (cases "rec_error_body L df dr i errs W")
  have self': "self W' = self W"
    using rec_error_body_self [of L df dr i errs W] b by simp
  from Cons.prems have "transforms_return L (self W) (str_date (dr ! i)) (period_docs L df dr i)"
    by simp
  from rec_error_body_cases [OF this, of errs] b
  consider p where "res = Inr p"
    | l where "res = Inl (KeyError l)" "l = str_date (dr ! i) \<or> l = str_date (dr ! (i + 1))"
        "tfidf_dict (self W) l = None \<or> nmf_dict (self W) l = None"
    by auto
  then show ?case
  proof cases
    case 1
    from Cons.prems self' have
      "\<forall>j \<in> set is. transforms_return L (self W') (str_date (dr ! j)) (period_docs L df dr j)"
      by simp
    from Cons.IH [OF this, of p] b 1 self' show ?thesis by auto
  next
    case 2
    with b show ?thesis by auto
  qed
qed

lemma nth_in_take: "k \<le> i \<Longrightarrow> i < length xs \<Longrightarrow> xs ! k \<in> set (take (Suc i) xs)"
  by (metis in_set_conv_nth le_imp_less_Suc length_take min_less_iff_conj nth_take
      less_le_trans Suc_leI)


lemma calc_rec_error_missing_label:
  assumes i: "i < length dr - 1"
    and none: "tfidf_dict (self W) (str_date (dr ! i)) = None"
    and lib: "\<forall>j < i. transforms_return L (self W) (str_date (dr ! j))
        (spec_period_docs L df (dr ! j) (dr ! (j + 1)))"
  shows "\<exists>l. fst (calc_rec_error L df dr W) = Inl (KeyError l) \<and>
           l \<in> str_date ` set (take (Suc i) dr) \<and>
           (tfidf_dict (self W) l = None \<or> nmf_dict (self W) l = None)"
proof -
  let ?n = "length dr - 1"
  from i have len: "i < length dr" by simp
  obtain res W' where pre: "rec_error_loop L df dr [0 ..< i] ([], []) W = (res, W')"
    by (cases "rec_error_loop L df dr [0 ..< i] ([], []) W")
  have self': "self W' = self W"
    using rec_error_loop_self [of L df dr "[0 ..< i]" "([], [])" W] pre by simp
  have split: "[0 ..< ?n] = [0 ..< i] @ i # [Suc i ..< ?n]"
    using i by (rule upt_split_at)
  have whole: "fst (calc_rec_error L df dr W) =
      (case res of Inl e \<Rightarrow> Inl e
       | Inr errs' \<Rightarrow> fst (rec_error_loop L df dr (i # [Suc i ..< ?n]) errs' W'))"
    by (simp only: calc_rec_error_fst split rec_error_loop_append pre)
       (simp split: sum.split)
  from lib have "\<forall>j \<in> set [0 ..< i].
      transforms_return L (self W) (str_date (dr ! j)) (period_docs L df dr j)"
    by (simp add: period_docs_spec)
  from rec_error_loop_cases [OF this, of "([], [])"] pre
  consider p where "res = Inr p"
    | l j where "res = Inl (KeyError l)" "j < i"
        "l = str_date (dr ! j) \<or> l = str_date (dr ! (j + 1))"
        "tfidf_dict (self W) l = None \<or> nmf_dict (self W) l = None"
    by auto
  then show ?thesis
  proof cases
    case 1
    from none self' have "tfidf_dict (self W') (str_date (dr ! i)) = None" by simp
    from rec_error_loop_missing_head [OF this, of L df "[Suc i ..< ?n]" p] whole 1
    have "fst (calc_rec_error L df dr W) = Inl (KeyError (str_date (dr ! i)))" by simp
    moreover have "str_date (dr ! i) \<in> str_date ` set (take (Suc i) dr)"
      using nth_in_take [of i i dr] len by simp
    ultimately show ?thesis using none by blast
  next
    case 2
    from 2(2) len have "dr ! j \<in> set (take (Suc i) dr)" "dr ! (j + 1) \<in> set (take (Suc i) dr)"
      using nth_in_take [of j i dr] nth_in_take [of "j + 1" i dr] by simp_all
    with 2(3) have "l \<in> str_date ` set (take (Suc i) dr)" by auto
    with whole 2(1,4) show ?thesis by simp
  qed
qed

text \<open>
  C3, as the code has it. If the label of the previous period of some boundary pair has
  no entry in the TF-IDF store, \<^verbatim>\<open>calc_rec_error\<close> raises: it returns no lists. For the
  first pair the exception is the \<^verbatim>\<open>KeyError\<close> of that label, so also on a new instance
  with at least one boundary pair. For a later pair it is the \<^verbatim>\<open>KeyError\<close> of a label that
  the stores lack, among the labels of the boundaries up to that pair, provided the
  library calls on the pairs before it return; an exception of such a call comes first
  otherwise.
\<close>

theorem missing_previous_model_raises:
  "(i < length date_range - 1 \<and> tfidf_dict (self W) (str_date (date_range ! i)) = None \<longrightarrow>
      (\<exists>e. fst (calc_rec_error L df date_range W) = Inl e) \<and>
      (i = 0 \<longrightarrow>
        fst (calc_rec_error L df date_range W) = Inl (KeyError (str_date (date_range ! 0)))) \<and>
      ((\<forall>j < i. transforms_return L (self W) (str_date (date_range ! j))
           (spec_period_docs L df (date_range ! j) (date_range ! (j + 1)))) \<longrightarrow>
        (\<exists>l. fst (calc_rec_error L df date_range W) = Inl (KeyError l) \<and>
             l \<in> str_date ` set (take (Suc i) date_range) \<and>
             (tfidf_dict (self W) l = None \<or> nmf_dict (self W) l = None)))) \<and>
   (2 \<le> length date_range \<and> self W = init n rs \<longrightarrow>
      fst (calc_rec_error L df date_range W) = Inl (KeyError (str_date (date_range ! 0))))"
proof -
  have first: "fst (calc_rec_error L df date_range W) = Inl (KeyError (str_date (date_range ! 0)))"
    if len: "0 < length date_range - 1"
      and none: "tfidf_dict (self W) (str_date (date_range ! 0)) = None"
  proof -
    have "fst (calc_rec_error L df (take (Suc 0) date_range) W) = Inr ([], [])"
      by (simp add: calc_rec_error_fst)
    with calc_rec_error_missing [OF len none, of L df] show ?thesis by simp
  qed
  have new: "fst (calc_rec_error L df date_range W) = Inl (KeyError (str_date (date_range ! 0)))"
    if "2 \<le> length date_range" and "self W = init n rs"
    using that first by (simp add: init_def)
  have raises: "\<exists>e. fst (calc_rec_error L df date_range W) = Inl e"
    if "i < length date_range - 1" and "tfidf_dict (self W) (str_date (date_range ! i)) = None"
    using calc_rec_error_missing [OF that, of L df] by blast
  from first new raises calc_rec_error_missing_label [of i date_range W L df]
  show ?thesis by blast
qed

lemma gap_day1_store:
  "tfidf_dict (self gap_day1) 1 = Some [[''a'']]"
  "nmf_dict (self gap_day1) 1 = Some [[''a'']]"
  "tfidf_dict (self gap_day1) 2 = None"
  "nmf_dict (self gap_day1) 2 = None"
  by code_simp+

lemma gap_run: "fst (calc_rec_error strict gap_tweets later_days gap_day1) =
    Inl (ValueError ''0 samples'')"
  by code_simp

text \<open>
  C3 as stated fails: the previous label of the second pair was never fitted, but the
  first pair has no tweet, the TF-IDF transform raises on it, and the call ends with the
  library's \<^verbatim>\<open>ValueError\<close>, not with a \<^verbatim>\<open>KeyError\<close>.
\<close>

theorem library_error_comes_first:
  "1 < length later_days - 1 \<and>
   tfidf_dict (self gap_day1) (str_date (later_days ! 1)) = None \<and>
   nmf_dict (self gap_day1) (str_date (later_days ! 1)) = None \<and>
   fst (calc_rec_error strict gap_tweets later_days gap_day1) = Inl (ValueError ''0 samples'')"
  using gap_day1_store gap_run by (simp add: later_days_def str_date_def)

lemma fitted_day1_store:
  "tfidf_dict (self fitted_day1) 1 = Some [[''a'']]"
  "nmf_dict (self fitted_day1) 1 = Some [[''a'']]"
  "tfidf_dict (self fitted_day1) 2 = None"
  by code_simp+

lemma stub_transforms_return: "transforms_return stub S prev_date sub_df"
  by (simp add: transforms_return_def stub_def)

theorem missing_previous_model_raises_witness:
  "0 < length [0, 86400 :: int] - 1 \<and>
   tfidf_dict (self fresh) (str_date ([0, 86400] ! 0)) = None \<and>
   2 \<le> length [0, 86400 :: int] \<and> self fresh = init 5 42 \<and>
   fst (calc_rec_error stub tweets [0, 86400] fresh) = Inl (KeyError 0) \<and>
   1 < length later_days - 1 \<and>
   tfidf_dict (self fitted_day1) (str_date (later_days ! 1)) = None \<and>
   transforms_return stub (self fitted_day1) (str_date (later_days ! 0))
      (spec_period_docs stub tweets (later_days ! 0) (later_days ! (0 + 1))) \<and>
   (\<exists>l. fst (calc_rec_error stub tweets later_days fitted_day1) = Inl (KeyError l) \<and>
        l \<in> str_date ` set (take (Suc 1) later_days) \<and>
        (tfidf_dict (self fitted_day1) l = None \<or> nmf_dict (self fitted_day1) l = None))"
proof -
  have a: "0 < length [0, 86400 :: int] - 1"
    "tfidf_dict (self fresh) (str_date ([0, 86400] ! 0)) = None"
    "2 \<le> length [0, 86400 :: int]" "self fresh = init 5 42"
    by (simp_all add: fresh_def new_world_def init_def)
  have b: "1 < length later_days - 1"
    "tfidf_dict (self fitted_day1) (str_date (later_days ! 1)) = None"
    using fitted_day1_store by (simp_all add: later_days_def str_date_def)
  have c: "\<forall>j < 1. transforms_return stub (self fitted_day1) (str_date (later_days ! j))
      (spec_period_docs stub tweets (later_days ! j) (later_days ! (j + 1)))"
    by (simp add: stub_transforms_return)
  from a b c stub_transforms_return [of "self fitted_day1" "str_date (later_days ! 0)"
      "spec_period_docs stub tweets (later_days ! 0) (later_days ! (0 + 1))"]
    missing_previous_model_raises [where date_range = "[0, 86400]" and W = fresh
      and n = 5 and rs = 42 and L = stub and df = tweets and i = 0]
    missing_previous_model_raises [where date_range = later_days and W = fitted_day1
      and L = stub and df = tweets and i = 1]
  show ?thesis by (simp add: str_date_def)
qed

section \<open>The two error series\<close>

lemma rec_error_pair_ok:
  assumes "tfidf_dict S prev_date = Some tf" and "nmf_dict S prev_date = Some nm"
    and "nmf_dict S date = Some own" and "tfidf_transform L tf sub_df = Inr x"
    and "nmf_transform L nm x = Inr w"
    and "beta_divergence L x w (nmf_components L nm) ''frobenius'' True = Inr c"
  shows "rec_error_pair L S prev_date date sub_df = Inr (nmf_reconstruction_err L own, c)"
  using assms by (simp add: rec_error_pair_def bind_def lookup_def)

lemma rec_error_loop_ok:
  assumes "\<forall>i \<in> set is. rec_error_pair L (self W) (str_date (dr ! i)) (str_date (dr ! (i + 1)))
             (period_docs L df dr i) = Inr (p i, q i)"
  shows "fst (rec_error_loop L df dr is errs W) = Inr (fst errs @ map p is, snd errs @ map q is)"
  using assms
proof (induction "is" arbitrary: errs W)
  case Nil
  show ?case by simp
next
  case (Cons i "is")
  let ?W1 = "print (Working_on (str_date (dr ! (i + 1)))) W"
  from Cons.prems have "rec_error_pair L (self W) (str_date (dr ! i)) (str_date (dr ! (i + 1)))
      (period_docs L df dr i) = Inr (p i, q i)" by simp
  then have b: "rec_error_body L df dr i errs W = (Inr (fst errs @ [p i], snd errs @ [q i]), ?W1)"
    by (simp add: rec_error_body_def Let_def)
  from Cons.prems have rest: "\<forall>j \<in> set is. rec_error_pair L (self ?W1) (str_date (dr ! j))
      (str_date (dr ! (j + 1))) (period_docs L df dr j) = Inr (p j, q j)"
    by simp
  from Cons.IH [OF rest, of "(fst errs @ [p i], snd errs @ [q i])"] b
  show ?case by simp
qed

text \<open>
  C1, as the code has it. Let every boundary pair find the TF-IDF and NMF models of its
  previous label and the NMF model of its own label in the stores, and let the library
  calls on it return: the transform of the period's documents by the previous TF-IDF
  model, the transform of that matrix by the previous NMF model, and the divergence of the
  matrix from the product of the topic weights and the previous components, called with
  \<^verbatim>\<open>'frobenius'\<close> and \<^verbatim>\<open>square_root=True\<close>. Then \<^verbatim>\<open>calc_rec_error\<close> returns two lists with
  one entry per pair, in the order of the boundaries: the stored reconstruction errors of
  the pairs' own models, and these divergences.
\<close>

theorem calc_rec_error_series:
  assumes "\<forall>i < length date_range - 1.
      tfidf_dict (self W) (str_date (date_range ! i)) = Some (tf i) \<and>
      nmf_dict (self W) (str_date (date_range ! i)) = Some (nm i) \<and>
      nmf_dict (self W) (str_date (date_range ! (i + 1))) = Some (own i) \<and>
      tfidf_transform L (tf i)
        (spec_period_docs L df (date_range ! i) (date_range ! (i + 1))) = Inr (x i) \<and>
      nmf_transform L (nm i) (x i) = Inr (w i) \<and>
      beta_divergence L (x i) (w i) (nmf_components L (nm i)) ''frobenius'' True = Inr (c i)"
  shows "\<exists>model_err new_err.
      fst (calc_rec_error L df date_range W) = Inr (model_err, new_err) \<and>
      length model_err = length date_range - 1 \<and> length new_err = length date_range - 1 \<and>
      model_err = map (\<lambda>i. nmf_reconstruction_err L (own i)) [0 ..< length date_range - 1] \<and>
      new_err = map c [0 ..< length date_range - 1]"
proof -
  let ?n = "length date_range - 1"
  have "\<forall>i \<in> set [0 ..< ?n].
      rec_error_pair L (self W) (str_date (date_range ! i)) (str_date (date_range ! (i + 1)))
        (period_docs L df date_range i) = Inr (nmf_reconstruction_err L (own i), c i)"
  proof
    fix i assume "i \<in> set [0 ..< ?n]"
    then have "i < ?n" by simp
    with assms show "rec_error_pair L (self W) (str_date (date_range ! i))
        (str_date (date_range ! (i + 1))) (period_docs L df date_range i) =
        Inr (nmf_reconstruction_err L (own i), c i)"
      by (simp add: period_docs_spec rec_error_pair_ok)
  qed
  from rec_error_loop_ok [OF this, of "([], [])"]
  show ?thesis by (simp add: calc_rec_error_fst)
qed

lemma fitted_day2_store:
  "tfidf_dict (self fitted_day2) 1 = Some [[''a'']]"
  "nmf_dict (self fitted_day2) 1 = Some [[''a'']]"
  "nmf_dict (self fitted_day2) 2 = Some [[''b''], [''c'']]"
  by code_simp+

lemma day2_docs: "spec_period_docs stub tweets 86400 172800 = [[''b''], [''c'']]"
  by code_simp

theorem calc_rec_error_series_witness:
  "tfidf_dict (self fitted_day2) (str_date ([86400, 172800] ! 0)) = Some [[''a'']] \<and>
   nmf_dict (self fitted_day2) (str_date ([86400, 172800] ! 0)) = Some [[''a'']] \<and>
   nmf_dict (self fitted_day2) (str_date ([86400, 172800] ! 1)) = Some [[''b''], [''c'']] \<and>
   fst (calc_rec_error stub tweets [86400, 172800] fitted_day2) = Inr ([2], [3])"
proof -
  have d: "str_date 86400 = 1" "str_date 172800 = 2"
    by (simp_all add: str_date_def)
  have h: "\<forall>i < length [86400, 172800 :: int] - 1.
      tfidf_dict (self fitted_day2) (str_date ([86400, 172800] ! i)) = Some [[''a'']] \<and>
      nmf_dict (self fitted_day2) (str_date ([86400, 172800] ! i)) = Some [[''a'']] \<and>
      nmf_dict (self fitted_day2) (str_date ([86400, 172800] ! (i + 1))) = Some [[''b''], [''c'']] \<and>
      tfidf_transform stub [[''a'']]
        (spec_period_docs stub tweets ([86400, 172800] ! i) ([86400, 172800] ! (i + 1))) =
        Inr [[''b''], [''c'']] \<and>
      nmf_transform stub [[''a'']] [[''b''], [''c'']] = Inr [[''b''], [''c'']] \<and>
      beta_divergence stub [[''b''], [''c'']] [[''b''], [''c'']] (nmf_components stub [[''a'']])
        ''frobenius'' True = Inr 3"
    by (simp add: d fitted_day2_store day2_docs) (simp add: stub_def)
  from calc_rec_error_series [OF h] fitted_day2_store d
  show ?thesis by (simp add: stub_def)
qed

text \<open>
  C1 as stated fails: the previous period of the only pair has been fitted, the pair's own
  period has not, and the call raises instead of returning two lists.
\<close>

theorem own_model_missing_raises:
  "tfidf_dict (self fitted_day1) (str_date 86400) = Some [[''a'']] \<and>
   nmf_dict (self fitted_day1) (str_date 86400) = Some [[''a'']] \<and>
   fst (calc_rec_error stub tweets [86400, 172800] fitted_day1) = Inl (KeyError 2)"
  by code_simp

section \<open>A period without vocabulary\<close>

lemma calculate_nmf_raises:
  "tfidf_fit_transform L tokenizer False data = Inl e \<Longrightarrow>
   calculate_nmf L date data S = (Inl e, S)"
  by (simp add: calculate_nmf_def)

lemma fit_body_raises:
  "tfidf_fit_transform L tokenizer False (period_docs L df dr i) = Inl e \<Longrightarrow>
   fst (fit_body L df dr i W) = Inl e"
  by (simp add: fit_body_def Let_def calculate_nmf_raises)

lemma fit_loop_raises_head:
  assumes "tfidf_fit_transform L tokenizer False (period_docs L df dr i) = Inl e"
  shows "fst (fit_loop L df dr (i # is) W) = Inl e"
proof -
  obtain res W' where b: "fit_body L df dr i W = (res, W')"
    by (cases "fit_body L df dr i W")
  with fit_body_raises [OF assms, of W] have "res = Inl e" by simp
  with b show ?thesis by simp
qed

lemma empty_slice_no_vocabulary:
  "half_open_slice df lo hi = [] \<Longrightarrow> concat (spec_period_docs L df lo hi) = []"
  by (simp add: spec_period_docs_def)

text \<open>
  C8. With a vectorizer that refuses an empty vocabulary, a period whose slice is empty,
  or whose documents hold no token, makes the TF-IDF fit raise, and \<^verbatim>\<open>fit\<close> raises with
  it: the call returns an exception, and when the periods before went through it is the
  exception of that fit.
\<close>

theorem empty_period_aborts_fit:
  assumes lib: "refuses_empty_vocabulary L"
    and i: "i < length date_range - 1"
    and empty: "half_open_slice df (date_range ! i) (date_range ! (i + 1)) = [] \<or>
      concat (spec_period_docs L df (date_range ! i) (date_range ! (i + 1))) = []"
  shows "\<exists>e. tfidf_fit_transform L tokenizer False
             (spec_period_docs L df (date_range ! i) (date_range ! (i + 1))) = Inl e \<and>
           (\<exists>e'. fst (fit L df date_range W) = Inl e') \<and>
           (fst (fit L df (take (Suc i) date_range) W) = Inr () \<longrightarrow>
              fst (fit L df date_range W) = Inl e)"
proof -
  let ?n = "length date_range - 1"
  from empty have "concat (spec_period_docs L df (date_range ! i) (date_range ! (i + 1))) = []"
    using empty_slice_no_vocabulary by blast
  with lib obtain e where e: "tfidf_fit_transform L tokenizer False
      (spec_period_docs L df (date_range ! i) (date_range ! (i + 1))) = Inl e"
    unfolding refuses_empty_vocabulary_def by blast
  then have e': "tfidf_fit_transform L tokenizer False (period_docs L df date_range i) = Inl e"
    by (simp add: period_docs_spec)
  obtain res W' where pre: "fit_loop L df date_range [0 ..< i] W = (res, W')"
    by (cases "fit_loop L df date_range [0 ..< i] W")
  have split: "[0 ..< ?n] = [0 ..< i] @ i # [Suc i ..< ?n]"
    using i by (rule upt_split_at)
  have whole: "fst (fit L df date_range W) =
      (case res of Inl e \<Rightarrow> Inl e
       | Inr u \<Rightarrow> fst (fit_loop L df date_range (i # [Suc i ..< ?n]) W'))"
    by (simp only: fit_fst split fit_loop_append pre) (simp split: sum.split)
  have short: "fst (fit L df (take (Suc i) date_range) W) = res"
    by (simp only: fit_fst fit_loop_prefix [OF i] pre) simp
  have "(\<exists>e'. fst (fit L df date_range W) = Inl e') \<and>
        (fst (fit L df (take (Suc i) date_range) W) = Inr () \<longrightarrow>
           fst (fit L df date_range W) = Inl e)"
  proof (cases res)
    case (Inl a)
    with whole short show ?thesis by simp
  next
    case (Inr u)
    with whole fit_loop_raises_head [OF e', of "[Suc i ..< ?n]" W']
    show ?thesis by simp
  qed
  with e show ?thesis by blast
qed

lemma stub_refuses: "refuses_empty_vocabulary stub"
  by (simp add: refuses_empty_vocabulary_def stub_def stub_fit_def tokenizer_def)

lemma day4_slice: "half_open_slice tweets (aborted_range ! 3) (aborted_range ! (3 + 1)) = []"
  by code_simp

lemma three_days_fit: "fst (fit stub tweets (take (Suc 3) aborted_range) fresh) = Inr ()"
  by code_simp

theorem empty_period_aborts_fit_witness:
  "refuses_empty_vocabulary stub \<and> 3 < length aborted_range - 1 \<and>
   half_open_slice tweets (aborted_range ! 3) (aborted_range ! (3 + 1)) = [] \<and>
   fst (fit stub tweets (take (Suc 3) aborted_range) fresh) = Inr () \<and>
   (\<exists>e. tfidf_fit_transform stub tokenizer False
          (spec_period_docs stub tweets (aborted_range ! 3) (aborted_range ! (3 + 1))) = Inl e \<and>
        fst (fit stub tweets aborted_range fresh) = Inl e)"
proof -
  have i: "3 < length aborted_range - 1"
    by (simp add: aborted_range_def)
  from empty_period_aborts_fit [OF stub_refuses i disjI1 [OF day4_slice], of fresh]
    stub_refuses i day4_slice three_days_fit
  show ?thesis by auto
qed

section \<open>What a run of fit stores\<close>

lemma fit_body_Inr:
  assumes "fit_body L df dr i W = (Inr u, W')"
  obtains cv c lda tfidf x nmf where
    "cv_fit_transform L tokenizer False (period_docs L df dr i) = Inr (cv, c)"
    "lda_fit_transform L (n_components (self W)) (random_state (self W)) c = Inr lda"
    "tfidf_fit_transform L tokenizer False (period_docs L df dr i) = Inr (tfidf, x)"
    "nmf_fit_transform L (n_components (self W)) (random_state (self W)) x = Inr nmf"
    "self W' = (self W)\<lparr>tfidf_dict := (tfidf_dict (self W))(str_date (dr ! (i + 1)) \<mapsto> tfidf),
        nmf_dict := (nmf_dict (self W))(str_date (dr ! (i + 1)) \<mapsto> nmf),
        cv_dict := (cv_dict (self W))(str_date (dr ! (i + 1)) \<mapsto> cv),
        lda_dict := (lda_dict (self W))(str_date (dr ! (i + 1)) \<mapsto> lda)\<rparr>"
  using assms
  by (auto simp: fit_body_def calculate_nmf_def calculate_lda_def Let_def
      split: sum.splits prod.splits)

lemma calculate_nmf_frame:
  "n_components (snd (calculate_nmf L d data S)) = n_components S \<and>
   random_state (snd (calculate_nmf L d data S)) = random_state S \<and>
   (d' \<noteq> d \<longrightarrow> models_at (snd (calculate_nmf L d data S)) d' = models_at S d')"
  by (simp add: calculate_nmf_def models_at_def split: sum.split prod.split)

lemma calculate_lda_frame:
  "n_components (snd (calculate_lda L d data S)) = n_components S \<and>
   random_state (snd (calculate_lda L d data S)) = random_state S \<and>
   (d' \<noteq> d \<longrightarrow> models_at (snd (calculate_lda L d data S)) d' = models_at S d')"
  by (simp add: calculate_lda_def models_at_def split: sum.split prod.split)

lemma fit_body_self:
  "self (snd (fit_body L df dr i W)) = self W \<or>
   self (snd (fit_body L df dr i W)) =
     snd (calculate_nmf L (str_date (dr ! (i + 1))) (period_docs L df dr i) (self W)) \<or>
   self (snd (fit_body L df dr i W)) =
     snd (calculate_lda L (str_date (dr ! (i + 1))) (period_docs L df dr i)
       (snd (calculate_nmf L (str_date (dr ! (i + 1))) (period_docs L df dr i) (self W))))"
  by (simp add: fit_body_def Let_def split: sum.split prod.split)

lemma fit_body_frame:
  "n_components (self (snd (fit_body L df dr i W))) = n_components (self W) \<and>
   random_state (self (snd (fit_body L df dr i W))) = random_state (self W) \<and>
   (d' \<noteq> str_date (dr ! (i + 1)) \<longrightarrow>
      models_at (self (snd (fit_body L df dr i W))) d' = models_at (self W) d')"
  using fit_body_self [of L df dr i W]
    calculate_nmf_frame [of L "str_date (dr ! (i + 1))" "period_docs L df dr i" "self W" d']
    calculate_lda_frame [of L "str_date (dr ! (i + 1))" "period_docs L df dr i"
      "snd (calculate_nmf L (str_date (dr ! (i + 1))) (period_docs L df dr i) (self W))" d']
  by auto

lemma fit_body_stdout:
  "stdout (snd (fit_body L df dr i W)) = stdout W @ [Working_on (str_date (dr ! (i + 1)))]"
  by (simp add: fit_body_def Let_def split: sum.split prod.split)

lemma fit_loop_frame:
  "n_components (self (snd (fit_loop L df dr is W))) = n_components (self W) \<and>
   random_state (self (snd (fit_loop L df dr is W))) = random_state (self W) \<and>
   (d' \<notin> (\<lambda>i. str_date (dr ! (i + 1))) ` set is \<longrightarrow>
      models_at (self (snd (fit_loop L df dr is W))) d' = models_at (self W) d')"
proof (induction "is" arbitrary: W)
  case Nil
  show ?case by simp
next
  case (Cons i "is")
  obtain res W' where b: "fit_body L df dr i W = (res, W')"
    by (cases "fit_body L df dr i W")
  from fit_body_frame [of L df dr i W d'] b
  have f: "n_components (self W') = n_components (self W)"
    "random_state (self W') = random_state (self W)"
    "d' \<noteq> str_date (dr ! (i + 1)) \<longrightarrow> models_at (self W') d' = models_at (self W) d'"
    by simp_all
  show ?case
  proof (cases res)
    case (Inl e)
    with b f show ?thesis by simp
  next
    case (Inr u)
    with b f Cons.IH [of W'] show ?thesis by simp
  qed
qed

lemma fit_loop_stdout:
  "fit_loop L df dr is W = (Inr u, W') \<Longrightarrow>
   stdout W' = stdout W @ map (\<lambda>i. Working_on (str_date (dr ! (i + 1)))) is"
proof (induction "is" arbitrary: W)
  case Nil
  then show ?case by simp
next
  case (Cons i "is")
  obtain res W1 where b: "fit_body L df dr i W = (res, W1)"
    by (cases "fit_body L df dr i W")
  with Cons.prems obtain v where res: "res = Inr v"
    by (cases res) simp_all
  with b Cons.prems have "fit_loop L df dr is W1 = (Inr u, W')" by simp
  from Cons.IH [OF this] fit_body_stdout [of L df dr i W] b
  show ?case by simp
qed

lemma fit_loop_labels:
  "fit_loop L df dr is W = (Inr u, W') \<Longrightarrow>
   labels_of (self W') =
     (dom (cv_dict (self W)) \<union> (\<lambda>i. str_date (dr ! (i + 1))) ` set is,
      dom (tfidf_dict (self W)) \<union> (\<lambda>i. str_date (dr ! (i + 1))) ` set is,
      dom (nmf_dict (self W)) \<union> (\<lambda>i. str_date (dr ! (i + 1))) ` set is,
      dom (lda_dict (self W)) \<union> (\<lambda>i. str_date (dr ! (i + 1))) ` set is)"
proof (induction "is" arbitrary: W)
  case Nil
  then show ?case by (simp add: labels_of_def)
next
  case (Cons i "is")
  obtain res W1 where b: "fit_body L df dr i W = (res, W1)"
    by (cases "fit_body L df dr i W")
  with Cons.prems obtain v where res: "res = Inr v"
    by (cases res) simp_all
  with b Cons.prems have rest: "fit_loop L df dr is W1 = (Inr u, W')" by simp
  from b res have "fit_body L df dr i W = (Inr v, W1)" by simp
  then have "labels_of (self W1) =
     (insert (str_date (dr ! (i + 1))) (dom (cv_dict (self W))),
      insert (str_date (dr ! (i + 1))) (dom (tfidf_dict (self W))),
      insert (str_date (dr ! (i + 1))) (dom (nmf_dict (self W))),
      insert (str_date (dr ! (i + 1))) (dom (lda_dict (self W))))"
    by (rule fit_body_Inr) (simp add: labels_of_def)
  with Cons.IH [OF rest] show ?case
    by (simp add: labels_of_def)
qed

lemma fitted_on_cong:
  "models_at S d = models_at S' d \<Longrightarrow> fitted_on L k rs docs S d = fitted_on L k rs docs S' d"
  by (simp add: fitted_on_def)

lemma fit_body_fitted:
  assumes "fit_body L df dr i W = (Inr u, W')"
  shows "fitted_on L (n_components (self W)) (random_state (self W)) (period_docs L df dr i)
           (self W') (str_date (dr ! (i + 1)))"
  using assms by (rule fit_body_Inr) (simp add: fitted_on_def models_at_def)

lemma fit_loop_fitted:
  assumes "fit_loop L df dr is W = (Inr u, W')"
    and "distinct (map (\<lambda>i. str_date (dr ! (i + 1))) is)"
    and "i \<in> set is"
  shows "fitted_on L (n_components (self W)) (random_state (self W)) (period_docs L df dr i)
           (self W') (str_date (dr ! (i + 1)))"
  using assms
proof (induction "is" arbitrary: W)
  case Nil
  then show ?case by simp
next
  case (Cons j js)
  obtain res W1 where b: "fit_body L df dr j W = (res, W1)"
    by (cases "fit_body L df dr j W")
  with Cons.prems(1) obtain v where res: "res = Inr v"
    by (cases res) simp_all
  with b Cons.prems(1) have rest: "fit_loop L df dr js W1 = (Inr u, W')" by simp
  from b res have body: "fit_body L df dr j W = (Inr v, W1)" by simp
  from fit_body_frame [of L df dr j W] b
  have cfg: "n_components (self W1) = n_components (self W)"
    "random_state (self W1) = random_state (self W)" by simp_all
  from Cons.prems(2) have dist: "distinct (map (\<lambda>i. str_date (dr ! (i + 1))) js)"
    and fresh: "str_date (dr ! (j + 1)) \<notin> (\<lambda>i. str_date (dr ! (i + 1))) ` set js"
    by simp_all
  show ?case
  proof (cases "i \<in> set js")
    case True
    from Cons.IH [OF rest dist True] cfg show ?thesis by simp
  next
    case False
    with Cons.prems(3) have ij: "i = j" by simp
    from fit_loop_frame [of L df dr js W1 "str_date (dr ! (j + 1))"] rest fresh
    have "models_at (self W') (str_date (dr ! (j + 1))) =
          models_at (self W1) (str_date (dr ! (j + 1)))" by simp
    from fitted_on_cong [OF this, of L "n_components (self W)" "random_state (self W)"
        "period_docs L df dr j"] fit_body_fitted [OF body] ij
    show ?thesis by simp
  qed
qed

lemma boundaries_tl: "map (\<lambda>i. dr ! (i + 1)) [0 ..< length dr - 1] = tl dr"
  by (rule nth_equalityI) (simp_all add: nth_tl)

lemma labels_tl:
  "map (\<lambda>i. str_date (dr ! (i + 1))) [0 ..< length dr - 1] = map str_date (tl dr)"
  using boundaries_tl [of dr, THEN arg_cong, of "map str_date"] by (simp add: comp_def)


text \<open>
  C2, as the code has it. Start from a new instance, let the dates of the boundaries after
  the first be pairwise different, and let \<^verbatim>\<open>fit\<close> return. Then each of the four stores
  holds exactly the labels of these boundaries, one per boundary pair; under the label of
  \<open>b[i+1]\<close> are the count vectorizer, the LDA model, the TF-IDF vectorizer and the NMF
  model fitted on the tokenized tweets of the half-open slice from \<open>b[i]\<close> to \<open>b[i+1]\<close>;
  and the console shows the labels in the order of the boundaries, then the end.
\<close>

theorem fit_populates_store:
  assumes new: "self W = init k rs"
    and fin: "fit L df date_range W = (Inr (), W')"
    and dist: "distinct (map str_date (tl date_range))"
  shows "dom (cv_dict (self W')) = str_date ` set (tl date_range) \<and>
         dom (tfidf_dict (self W')) = str_date ` set (tl date_range) \<and>
         dom (nmf_dict (self W')) = str_date ` set (tl date_range) \<and>
         dom (lda_dict (self W')) = str_date ` set (tl date_range) \<and>
         card (str_date ` set (tl date_range)) = length date_range - 1 \<and>
         (\<forall>i < length date_range - 1.
            fitted_on L k rs (spec_period_docs L df (date_range ! i) (date_range ! (i + 1)))
              (self W') (str_date (date_range ! (i + 1)))) \<and>
         stdout W' = stdout W @ map (\<lambda>b. Working_on (str_date b)) (tl date_range) @ [Finished]"
proof -
  let ?is = "[0 ..< length date_range - 1]"
  let ?lab = "\<lambda>i. str_date (date_range ! (i + 1))"
  obtain res W1 where l: "fit_loop L df date_range ?is W = (res, W1)"
    by (cases "fit_loop L df date_range ?is W")
  with fin obtain u where res: "res = Inr u" and W': "W' = print Finished W1"
    by (cases res) (simp_all add: fit_def)
  from l res have loop: "fit_loop L df date_range ?is W = (Inr u, W1)" by simp
  have img: "?lab ` set ?is = str_date ` set (tl date_range)"
    using labels_tl [of date_range, THEN arg_cong, of set] by simp
  from fit_loop_labels [OF loop] new img W'
  have doms: "dom (cv_dict (self W')) = str_date ` set (tl date_range)"
    "dom (tfidf_dict (self W')) = str_date ` set (tl date_range)"
    "dom (nmf_dict (self W')) = str_date ` set (tl date_range)"
    "dom (lda_dict (self W')) = str_date ` set (tl date_range)"
    by (simp_all add: labels_of_def init_def)
  from dist have card: "card (str_date ` set (tl date_range)) = length date_range - 1"
    using distinct_card [of "map str_date (tl date_range)"] by simp
  from dist have dist': "distinct (map ?lab ?is)"
    by (simp only: labels_tl)
  have fitted: "\<forall>i < length date_range - 1.
      fitted_on L k rs (spec_period_docs L df (date_range ! i) (date_range ! (i + 1)))
        (self W') (str_date (date_range ! (i + 1)))"
  proof (intro allI impI)
    fix i assume "i < length date_range - 1"
    then have "i \<in> set ?is" by simp
    from fit_loop_fitted [OF loop dist' this] new W'
    show "fitted_on L k rs (spec_period_docs L df (date_range ! i) (date_range ! (i + 1)))
        (self W') (str_date (date_range ! (i + 1)))"
      by (simp add: period_docs_spec init_def)
  qed
  from fit_loop_stdout [OF loop] W'
  have out: "stdout W' = stdout W @ map (\<lambda>b. Working_on (str_date b)) (tl date_range) @ [Finished]"
    using labels_tl [of date_range, THEN arg_cong, of "map Working_on"]
    by (simp add: comp_def)
  from doms card fitted out show ?thesis by simp
qed

lemma same_day_run:
  "fst (fit stub same_day_tweets same_day_range fresh) = Inr ()"
  "tfidf_dict (self (snd (fit stub same_day_tweets same_day_range fresh))) 0 = Some [[''b'']]"
  "spec_period_docs stub same_day_tweets 0 10 = [[''a'']]"
  by code_simp+

text \<open>
  C2 as stated fails: the second and third boundary fall on the same day, \<^verbatim>\<open>fit\<close> returns,
  and the models under that day's label are those of the later slice, not of the slice
  between the first and second boundary.
\<close>

theorem same_day_boundaries_overwrite:
  "fst (fit stub same_day_tweets same_day_range fresh) = Inr () \<and>
   str_date (same_day_range ! 1) = str_date (same_day_range ! 2) \<and>
   \<not> fitted_on stub 5 42
       (spec_period_docs stub same_day_tweets (same_day_range ! 0) (same_day_range ! 1))
       (self (snd (fit stub same_day_tweets same_day_range fresh)))
       (str_date (same_day_range ! 1))"
proof -
  have d: "str_date (same_day_range ! 1) = 0" "str_date (same_day_range ! 2) = 0"
    "same_day_range ! 0 = 0" "same_day_range ! 1 = 10"
    by (simp_all add: same_day_range_def str_date_def)
  have "\<not> fitted_on stub 5 42 [[''a'']]
      (self (snd (fit stub same_day_tweets same_day_range fresh))) 0"
  proof
    assume "fitted_on stub 5 42 [[''a'']]
      (self (snd (fit stub same_day_tweets same_day_range fresh))) 0"
    then obtain tfidf x where
      fitted: "tfidf_fit_transform stub tokenizer False [[''a'']] = Inr (tfidf, x)" and
      stored: "tfidf_dict (self (snd (fit stub same_day_tweets same_day_range fresh))) 0 =
        Some tfidf"
      unfolding fitted_on_def models_at_def by auto
    from fitted have "tfidf = [[''a'']]"
      by (simp add: stub_def stub_fit_def tokenizer_def)
    with stored same_day_run(2) show False by simp
  qed
  with d same_day_run show ?thesis by simp
qed

lemma three_days_run:
  "fst (fit stub tweets three_days fresh) = Inr ()"
  by code_simp

theorem fit_populates_store_witness:
  "self fresh = init 5 42 \<and>
   fit stub tweets three_days fresh = (Inr (), snd (fit stub tweets three_days fresh)) \<and>
   distinct (map str_date (tl three_days)) \<and>
   dom (tfidf_dict (self (snd (fit stub tweets three_days fresh)))) = {1, 2, 3} \<and>
   dom (nmf_dict (self (snd (fit stub tweets three_days fresh)))) = {1, 2, 3} \<and>
   fitted_on stub 5 42 (spec_period_docs stub tweets 86400 172800)
     (self (snd (fit stub tweets three_days fresh))) 2 \<and>
   stdout (snd (fit stub tweets three_days fresh)) =
     [Working_on 1, Working_on 2, Working_on 3, Finished]"
proof -
  have new: "self fresh = init 5 42"
    by (simp add: fresh_def new_world_def)
  have fin: "fit stub tweets three_days fresh = (Inr (), snd (fit stub tweets three_days fresh))"
    using three_days_run by (simp add: prod_eq_iff)
  have dist: "distinct (map str_date (tl three_days))"
    by (simp add: three_days_def str_date_def)
  have out: "stdout fresh = []"
    by (simp add: fresh_def new_world_def)
  from fit_populates_store [OF new fin dist] new fin dist out
  show ?thesis
    by (auto simp: three_days_def str_date_def)
qed

end
